theory Spec2Isabelle
  imports Main "HOL-Library.Word" "HOL-Library.Sublist"
begin

section \<open>Python values and the operations the program applies to them\<close>

text \<open>
  The program is \<^verbatim>\<open>src/app.py\<close>: a Streamlit page that sends an image to a
  remote classification service and prints the label it returns. The values it handles
  are bytes, strings, and whatever \<^verbatim>\<open>response.json()\<close> returns. A Python
  exception is a value of \<open>py_error\<close>, and a computation that may raise returns
  \<open>py_error + 'a\<close>.
\<close>

type_synonym byte = "8 word"

datatype py_error =
    AttributeError
  | KeyError
  | IndexError
  | TypeError
  | JSONDecodeError
  | RequestException
  | UnidentifiedImageError

text \<open>
  A Python float is a sign, a mantissa and an exponent, or one of the special values the
  standard JSON parser accepts. Only its truth value is observed by the program.
\<close>

datatype pyfloat =
    Finite bool nat int
  | Infinity bool
  | NaN

text \<open>
  The values of \<^verbatim>\<open>json.loads\<close>: \<open>JNull\<close> is Python's \<^verbatim>\<open>None\<close>,
  a dict is an association list whose first binding of a key is the dict's binding.
\<close>

datatype jvalue =
    JNull
  | JBool bool
  | JInt int
  | JFloat pyfloat
  | JStr string
  | JArr "jvalue list"
  | JObj "(string \<times> jvalue) list"

text \<open>Python's truth value of an object, as tested by \<^verbatim>\<open>if x:\<close>.\<close>

fun truthy :: "jvalue \<Rightarrow> bool" where
  "truthy JNull = False"
| "truthy (JBool b) = b"
| "truthy (JInt i) = (i \<noteq> 0)"
| "truthy (JFloat (Finite s m e)) = (m \<noteq> 0)"
| "truthy (JFloat (Infinity s)) = True"
| "truthy (JFloat NaN) = True"
| "truthy (JStr s) = (s \<noteq> [])"
| "truthy (JArr xs) = (xs \<noteq> [])"
| "truthy (JObj kvs) = (kvs \<noteq> [])"

text \<open>
  \<^verbatim>\<open>x.get(key, default)\<close>: only a dict has the method; on every other value the
  attribute lookup raises.
\<close>

fun py_get :: "jvalue \<Rightarrow> string \<Rightarrow> jvalue \<Rightarrow> py_error + jvalue" where
  "py_get (JObj kvs) k d = Inr (case map_of kvs k of None \<Rightarrow> d | Some v \<Rightarrow> v)"
| "py_get JNull k d = Inl AttributeError"
| "py_get (JBool b) k d = Inl AttributeError"
| "py_get (JInt i) k d = Inl AttributeError"
| "py_get (JFloat f) k d = Inl AttributeError"
| "py_get (JStr s) k d = Inl AttributeError"
| "py_get (JArr xs) k d = Inl AttributeError"

text \<open>
  \<^verbatim>\<open>x[0]\<close>: the first element of a list, the first character of a string, a
  \<^verbatim>\<open>KeyError\<close> on a dict parsed from JSON (its keys are strings, never the
  integer 0), and a \<^verbatim>\<open>TypeError\<close> on a value that cannot be subscripted.
\<close>

fun py_index0 :: "jvalue \<Rightarrow> py_error + jvalue" where
  "py_index0 (JArr []) = Inl IndexError"
| "py_index0 (JArr (x # xs)) = Inr x"
| "py_index0 (JStr []) = Inl IndexError"
| "py_index0 (JStr (c # cs)) = Inr (JStr [c])"
| "py_index0 (JObj kvs) = Inl KeyError"
| "py_index0 JNull = Inl TypeError"
| "py_index0 (JBool b) = Inl TypeError"
| "py_index0 (JInt i) = Inl TypeError"
| "py_index0 (JFloat f) = Inl TypeError"

text \<open>\<^verbatim>\<open>str(n)\<close> for an integer: its decimal digits, with a sign when negative.\<close>

definition digit_char :: "nat \<Rightarrow> char" where
  "digit_char d = ''0123456789'' ! d"

fun digits :: "nat \<Rightarrow> string" where
  "digits n = (if n < 10 then [digit_char n] else digits (n div 10) @ [digit_char (n mod 10)])"

definition str_int :: "int \<Rightarrow> string" where
  "str_int i = (if i < 0 then CHR ''-'' # digits (nat (- i)) else digits (nat i))"

text \<open>
  \<^verbatim>\<open>f"{x}"\<close> for the value of \<^verbatim>\<open>os.getenv\<close>: the string itself, or
  the text \<^verbatim>\<open>None\<close> when the variable is not set.
\<close>

fun str_opt :: "string option \<Rightarrow> string" where
  "str_opt None = ''None''"
| "str_opt (Some s) = s"

section \<open>Base64\<close>

text \<open>
  \<^verbatim>\<open>base64.b64encode\<close> of the Python standard library is the encoding of
  RFC 4648, section 4: three bytes become four characters of a 64-character alphabet,
  and a last group of one or two bytes is padded with \<^verbatim>\<open>=\<close>. Its output is
  ASCII, so the \<^verbatim>\<open>.decode('utf-8')\<close> of line 26 maps each byte to the
  character of the same code; the model produces the characters directly.
\<close>

definition b64alphabet :: string where
  "b64alphabet = ''ABCDEFGHIJKLMNOPQRSTUVWXYZabcdefghijklmnopqrstuvwxyz0123456789+/''"

definition b64char :: "nat \<Rightarrow> char" where
  "b64char n = b64alphabet ! n"

fun b64encode :: "byte list \<Rightarrow> string" where
  "b64encode [] = []"
| "b64encode [a] =
     (let n = unat a * 16
      in [b64char (n div 64), b64char (n mod 64), CHR ''='', CHR ''=''])"
| "b64encode [a, b] =
     (let n = (unat a * 256 + unat b) * 4
      in [b64char (n div 4096), b64char (n div 64 mod 64), b64char (n mod 64), CHR ''=''])"
| "b64encode (a # b # c # rest) =
     (let n = unat a * 65536 + unat b * 256 + unat c
      in b64char (n div 262144) # b64char (n div 4096 mod 64) #
         b64char (n div 64 mod 64) # b64char (n mod 64) # b64encode rest)"

text \<open>
  The decoder of the same section of the RFC, the inverse that
  \<^verbatim>\<open>base64.b64decode\<close> computes on well-formed input: groups of four
  characters, the last one possibly padded. \<open>None\<close> is the library's
  \<^verbatim>\<open>binascii.Error\<close>.
\<close>

fun index_of :: "'a \<Rightarrow> 'a list \<Rightarrow> nat option" where
  "index_of x [] = None"
| "index_of x (y # ys) = (if x = y then Some 0 else map_option Suc (index_of x ys))"

definition b64index :: "char \<Rightarrow> nat option" where
  "b64index c = index_of c b64alphabet"

fun b64decode :: "string \<Rightarrow> byte list option" where
  "b64decode [] = Some []"
| "b64decode (c0 # c1 # c2 # c3 # rest) =
     (if rest = [] \<and> c3 = CHR ''='' then
        (if c2 = CHR ''='' then
           (case (b64index c0, b64index c1) of
              (Some i0, Some i1) \<Rightarrow>
                Some [of_nat ((i0 * 64 + i1) div 16)]
            | _ \<Rightarrow> None)
         else
           (case (b64index c0, b64index c1, b64index c2) of
              (Some i0, Some i1, Some i2) \<Rightarrow>
                (let n = (i0 * 4096 + i1 * 64 + i2) div 4
                 in Some [of_nat (n div 256), of_nat (n mod 256)])
            | _ \<Rightarrow> None))
      else
        (case (b64index c0, b64index c1, b64index c2, b64index c3) of
           (Some i0, Some i1, Some i2, Some i3) \<Rightarrow>
             (let n = i0 * 262144 + i1 * 4096 + i2 * 64 + i3
              in map_option
                   (\<lambda>bs. of_nat (n div 65536) # of_nat (n div 256 mod 256) # of_nat (n mod 256) # bs)
                   (b64decode rest))
         | _ \<Rightarrow> None))"
| "b64decode _ = None"

section \<open>The classification client\<close>

text \<open>
  What \<^verbatim>\<open>requests.post\<close> is called with (lines 29 to 45), and what it returns:
  the status code, the body text, and the value of \<^verbatim>\<open>response.json()\<close>, which
  raises when the body is not JSON.
\<close>

record request =
  rq_method :: string
  rq_url :: string
  rq_headers :: "(string \<times> string) list"
  rq_json :: jvalue
  rq_verify :: bool

record response =
  status_code :: int
  resp_text :: string
  json_body :: "py_error + jvalue"

text \<open>What a call writes on the page, in order.\<close>

datatype ui_event =
    StError string
  | PlaceholderWrite string
  | SidebarTitle string
  | SidebarRadio string "string list"
  | SidebarFileUploader string "string list"
  | SidebarImage string
  | SidebarWrite string
  | WebrtcStreamer string
  | SidebarButton string
  | Title string
  | Subheader string
  | Tutorial
  | Markdown

record outcome =
  returned :: "py_error + jvalue"
  requests :: "request list"
  shown :: "ui_event list"

definition bind_err :: "py_error + 'a \<Rightarrow> ('a \<Rightarrow> py_error + 'b) \<Rightarrow> py_error + 'b" where
  "bind_err m f = (case m of Inl e \<Rightarrow> Inl e | Inr x \<Rightarrow> f x)"

text \<open>Lines 26 to 42: the request that is built from the image and the API key.\<close>

definition api_url :: string where
  "api_url = ''https://gemini.googleapis.com/v1/models/gemini-1.5-flash-latest:predict''"

definition request_data :: "string \<Rightarrow> jvalue" where
  "request_data encoded_image =
     JObj [(''instances'',
       JArr [JObj [(''image'', JObj [(''content'', JStr encoded_image)]),
                   (''features'', JObj [(''plant_identification'', JObj [])])]])]"

definition build_request :: "string option \<Rightarrow> byte list \<Rightarrow> request" where
  "build_request api_key image_data =
     (let encoded_image = b64encode image_data;
          url = api_url;
          headers = [(''Authorization'', ''Bearer '' @ str_opt api_key)];
          data = request_data encoded_image
      in \<lparr>rq_method = ''POST'', rq_url = url, rq_headers = headers, rq_json = data,
          rq_verify = False\<rparr>)"

text \<open>Lines 49 to 52: the label of the first prediction.\<close>

definition first_label :: "jvalue \<Rightarrow> py_error + jvalue" where
  "first_label prediction =
     bind_err (py_index0 prediction) (\<lambda>p0.
     bind_err (py_get p0 ''plant_identification'' (JObj [])) (\<lambda>ident.
     py_get ident ''plant_name'' JNull))"

text \<open>Lines 48 to 58: the value returned for a response, and the messages shown.\<close>

definition process_response :: "response \<Rightarrow> (py_error + jvalue) \<times> ui_event list" where
  "process_response response =
     (if status_code response = 200 then
        (case bind_err (json_body response) (\<lambda>body. py_get body ''predictions'' (JArr [])) of
           Inl e \<Rightarrow> (Inl e, [])
         | Inr prediction \<Rightarrow>
             if truthy prediction then (first_label prediction, [])
             else (Inr JNull, [StError ''No predictions found in the response.'']))
      else
        (Inr JNull,
         [StError (''Error: '' @ str_int (status_code response) @ '' - '' @ resp_text response)]))"

text \<open>
  \<^verbatim>\<open>identify_plant\<close>. The network is the function \<open>post\<close>, which answers a
  request with a response or raises; \<open>api_key\<close> is the module's \<^verbatim>\<open>API_KEY\<close>.
\<close>

definition identify_plant ::
  "(request \<Rightarrow> py_error + response) \<Rightarrow> string option \<Rightarrow> byte list \<Rightarrow> outcome" where
  "identify_plant post api_key image_data =
     (let req = build_request api_key image_data
      in case post req of
           Inl e \<Rightarrow> \<lparr>returned = Inl e, requests = [req], shown = []\<rparr>
         | Inr response \<Rightarrow>
             (let (r, msgs) = process_response response
              in \<lparr>returned = r, requests = [req], shown = msgs\<rparr>))"

section \<open>The capture holder\<close>

text \<open>
  \<^verbatim>\<open>VideoProcessor\<close> holds one array. \<open>to_ndarray\<close> is the frame's conversion
  \<^verbatim>\<open>frame.to_ndarray(format="bgr24")\<close> of the video library.
\<close>

record 'a VideoProcessor =
  captured_image :: "'a option"

definition init_processor :: "'a VideoProcessor" where
  "init_processor = \<lparr>captured_image = None\<rparr>"

definition recv :: "('f \<Rightarrow> 'a) \<Rightarrow> 'a VideoProcessor \<Rightarrow> 'f \<Rightarrow> 'a VideoProcessor \<times> 'f" where
  "recv to_ndarray self frame = (self\<lparr>captured_image := Some (to_ndarray frame)\<rparr>, frame)"

text \<open>A sequence of frame arrivals, each handled by \<open>recv\<close>.\<close>

fun recv_all :: "('f \<Rightarrow> 'a) \<Rightarrow> 'a VideoProcessor \<Rightarrow> 'f list \<Rightarrow> 'a VideoProcessor" where
  "recv_all to_ndarray self [] = self"
| "recv_all to_ndarray self (frame # frames) =
     recv_all to_ndarray (fst (recv to_ndarray self frame)) frames"

section \<open>The page script\<close>

text \<open>
  One run of the script (lines 80 to 145). Its inputs are what the widgets return in
  this run: the radio's choice, the uploaded file's bytes (or \<^verbatim>\<open>None\<close>), the
  video processor of the streamer (or \<^verbatim>\<open>None\<close>), and whether the Identify
  button, if it is drawn, reports a click.
\<close>

record 'a inputs =
  image_option :: string
  uploaded_file :: "byte list option"
  video_processor :: "'a VideoProcessor option"
  identify_clicked :: bool

text \<open>
  What a run does: the requests it sends, the page it draws, and the exception that ended
  it, if one did.
\<close>

record run =
  fault :: "py_error option"
  sent :: "request list"
  page :: "ui_event list"

text \<open>
  \<^verbatim>\<open>f"{plant_name}"\<close>: a string is inserted as it is; \<open>fmt\<close> is Python's
  \<^verbatim>\<open>str\<close> on the other values.
\<close>

definition py_str :: "(jvalue \<Rightarrow> string) \<Rightarrow> jvalue \<Rightarrow> string" where
  "py_str fmt v = (case v of JStr s \<Rightarrow> s | _ \<Rightarrow> fmt v)"

text \<open>
  Lines 96 and 97, the same as lines 121 and 122: the body of
  \<^verbatim>\<open>if st.sidebar.button("Identify"):\<close>.
\<close>

definition identify_action ::
  "(request \<Rightarrow> py_error + response) \<Rightarrow> string option \<Rightarrow> (jvalue \<Rightarrow> string) \<Rightarrow>
   byte list \<Rightarrow> run" where
  "identify_action post api_key fmt image_data =
     (let out = identify_plant post api_key image_data
      in case returned out of
           Inl e \<Rightarrow> \<lparr>fault = Some e, sent = requests out, page = shown out\<rparr>
         | Inr plant_name \<Rightarrow>
             \<lparr>fault = None, sent = requests out,
              page = shown out @
                [PlaceholderWrite
                   (if truthy plant_name
                    then ''The plant in the image is: '' @ py_str fmt plant_name
                    else ''No plant was identified.'')]\<rparr>)"

definition no_action :: run where
  "no_action = \<lparr>fault = None, sent = [], page = []\<rparr>"

definition sidebar_head :: "ui_event list" where
  "sidebar_head =
     [SidebarTitle ''Image Input Options'',
      SidebarRadio ''Choose an option:'' [''Upload Image'', ''Capture Image'']]"

definition main_area :: "ui_event list" where
  "main_area = [Title ''Image Identifier App'', Subheader ''How to Use This App'', Tutorial, Markdown]"

text \<open>
  Lines 87 to 97. \<open>show_image\<close> is \<^verbatim>\<open>st.sidebar.image\<close> on the uploaded
  bytes (line 92): \<open>None\<close> when the bytes are an image it can decode and draw, the
  exception it raises otherwise. The uploader filters by file extension only, so the
  bytes may be anything. Nothing catches the exception: the run ends at line 92, before
  the button is drawn and before any request.
\<close>

definition upload_branch ::
  "(request \<Rightarrow> py_error + response) \<Rightarrow> string option \<Rightarrow> (jvalue \<Rightarrow> string) \<Rightarrow>
   (byte list \<Rightarrow> py_error option) \<Rightarrow> 'a inputs \<Rightarrow> run" where
  "upload_branch post api_key fmt show_image inp =
     (let uploader = [SidebarFileUploader ''Upload an image...'' [''jpg'', ''jpeg'', ''png'']]
      in case uploaded_file inp of
           None \<Rightarrow> no_action\<lparr>page := uploader\<rparr>
         | Some image_data \<Rightarrow>
             (case show_image image_data of
                Some e \<Rightarrow> \<lparr>fault = Some e, sent = [], page = uploader\<rparr>
              | None \<Rightarrow>
                  (let act = (if identify_clicked inp
                              then identify_action post api_key fmt image_data
                              else no_action)
                   in act\<lparr>page := uploader @
                        [SidebarImage ''Uploaded Image'', SidebarButton ''Identify''] @
                        page act\<rparr>)))"

text \<open>
  Lines 99 to 122. \<open>imencode\<close> is \<^verbatim>\<open>cv2.imencode('.jpg', _)\<close> followed by
  \<^verbatim>\<open>tobytes()\<close>. The held value is the pixel array of a video frame, which
  the encoder and the image widget accept.
\<close>

definition capture_branch ::
  "(request \<Rightarrow> py_error + response) \<Rightarrow> string option \<Rightarrow> (jvalue \<Rightarrow> string) \<Rightarrow>
   ('a \<Rightarrow> byte list) \<Rightarrow> 'a inputs \<Rightarrow> run" where
  "capture_branch post api_key fmt imencode inp =
     (let streamer = [SidebarWrite ''Capture an image from your webcam:'', WebrtcStreamer ''example'']
      in case video_processor inp of
           None \<Rightarrow> no_action\<lparr>page := streamer\<rparr>
         | Some vp \<Rightarrow>
             (case captured_image vp of
                None \<Rightarrow> no_action\<lparr>page := streamer\<rparr>
              | Some img \<Rightarrow>
                  (let image_data = imencode img;
                       act = (if identify_clicked inp
                              then identify_action post api_key fmt image_data
                              else no_action)
                   in act\<lparr>page := streamer @
                        [SidebarImage ''Captured Image'', SidebarButton ''Identify''] @ page act\<rparr>)))"

text \<open>
  The whole run. An exception ends it where it is raised; otherwise the title, the
  tutorial and the style sheet follow.
\<close>

definition run_script ::
  "(request \<Rightarrow> py_error + response) \<Rightarrow> string option \<Rightarrow> (jvalue \<Rightarrow> string) \<Rightarrow>
   (byte list \<Rightarrow> py_error option) \<Rightarrow> ('a \<Rightarrow> byte list) \<Rightarrow> 'a inputs \<Rightarrow> run" where
  "run_script post api_key fmt show_image imencode inp =
     (let r = (if image_option inp = ''Upload Image''
               then upload_branch post api_key fmt show_image inp
               else if image_option inp = ''Capture Image''
               then capture_branch post api_key fmt imencode inp
               else no_action);
          r' = r\<lparr>page := sidebar_head @ page r\<rparr>
      in case fault r' of
           Some e \<Rightarrow> r'
         | None \<Rightarrow> r'\<lparr>page := page r' @ main_area\<rparr>)"

section \<open>Reading the page, and example exchanges\<close>

text \<open>The texts written into the result placeholder, and the error boxes.\<close>

definition written :: "ui_event list \<Rightarrow> string list" where
  "written evs = concat (map (\<lambda>e. case e of PlaceholderWrite s \<Rightarrow> [s] | _ \<Rightarrow> []) evs)"

fun is_error :: "ui_event \<Rightarrow> bool" where
  "is_error (StError m) = True"
| "is_error (PlaceholderWrite m) = False"
| "is_error (SidebarTitle m) = False"
| "is_error (SidebarRadio m opts) = False"
| "is_error (SidebarFileUploader m types) = False"
| "is_error (SidebarImage m) = False"
| "is_error (SidebarWrite m) = False"
| "is_error (WebrtcStreamer m) = False"
| "is_error (SidebarButton m) = False"
| "is_error (Title m) = False"
| "is_error (Subheader m) = False"
| "is_error Tutorial = False"
| "is_error Markdown = False"

text \<open>A network that answers every request with the same response.\<close>

definition answer :: "response \<Rightarrow> request \<Rightarrow> py_error + response" where
  "answer r rq = Inr r"

text \<open>The first bytes of a JPEG file, as an image to send.\<close>

definition jpeg_bytes :: "byte list" where
  "jpeg_bytes = [255, 216, 255, 224]"

definition rose_response :: response where
  \<open>rose_response =
     \<lparr>status_code = 200,
      resp_text = ''{"predictions":[{"plant_identification":{"plant_name":"Rose"}}]}'',
      json_body = Inr (JObj [(''predictions'',
        JArr [JObj [(''plant_identification'', JObj [(''plant_name'', JStr ''Rose'')])]])])\<rparr>\<close>

definition tulip_rose_response :: response where
  \<open>tulip_rose_response =
     \<lparr>status_code = 200,
      resp_text = ''{"predictions":[{"plant_identification":{"plant_name":"Tulip"}},{"plant_identification":{"plant_name":"Rose"}}]}'',
      json_body = Inr (JObj [(''predictions'',
        JArr [JObj [(''plant_identification'', JObj [(''plant_name'', JStr ''Tulip'')])],
              JObj [(''plant_identification'', JObj [(''plant_name'', JStr ''Rose'')])]])])\<rparr>\<close>

definition nested_string_response :: response where
  \<open>nested_string_response =
     \<lparr>status_code = 200,
      resp_text = ''{"predictions":[{"plant_identification":"Rose"}]}'',
      json_body = Inr (JObj [(''predictions'',
        JArr [JObj [(''plant_identification'', JStr ''Rose'')]])])\<rparr>\<close>

definition no_name_response :: response where
  \<open>no_name_response =
     \<lparr>status_code = 200,
      resp_text = ''{"predictions":[{"plant_identification":{}}]}'',
      json_body = Inr (JObj [(''predictions'',
        JArr [JObj [(''plant_identification'', JObj [])]])])\<rparr>\<close>

definition empty_predictions_response :: response where
  \<open>empty_predictions_response =
     \<lparr>status_code = 200,
      resp_text = ''{"predictions":[]}'',
      json_body = Inr (JObj [(''predictions'', JArr [])])\<rparr>\<close>

definition empty_name_response :: response where
  \<open>empty_name_response =
     \<lparr>status_code = 200,
      resp_text = ''{"predictions":[{"plant_identification":{"plant_name":""}}]}'',
      json_body = Inr (JObj [(''predictions'',
        JArr [JObj [(''plant_identification'', JObj [(''plant_name'', JStr [])])]])])\<rparr>\<close>

definition not_found_response :: response where
  "not_found_response =
     \<lparr>status_code = 404, resp_text = ''not found'', json_body = Inl JSONDecodeError\<rparr>"

text \<open>
  A whole PNG file: one pixel, 69 bytes (signature, IHDR, IDAT, IEND), and an
  image widget that draws this file and rejects every other content.
\<close>

definition png_bytes :: "byte list" where
  "png_bytes =
     [137, 80, 78, 71, 13, 10, 26, 10, 0, 0, 0, 13, 73, 72, 68, 82, 0, 0, 0, 1, 0, 0, 0, 1,
      8, 2, 0, 0, 0, 144, 119, 83, 222, 0, 0, 0, 12, 73, 68, 65, 84, 120, 156, 99, 96, 104,
      96, 0, 0, 1, 4, 0, 129, 112, 246, 199, 165, 0, 0, 0, 0, 73, 69, 78, 68, 174, 66, 96,
      130]"

definition shows_only :: "byte list \<Rightarrow> byte list \<Rightarrow> py_error option" where
  "shows_only img bs = (if bs = img then None else Some UnidentifiedImageError)"

definition upload_click :: "byte list \<Rightarrow> unit inputs" where
  "upload_click image_data =
     \<lparr>image_option = ''Upload Image'', uploaded_file = Some image_data,
      video_processor = None, identify_clicked = True\<rparr>"

definition upload_nothing :: "unit inputs" where
  "upload_nothing =
     \<lparr>image_option = ''Upload Image'', uploaded_file = None,
      video_processor = None, identify_clicked = True\<rparr>"

definition capture_nothing :: "unit inputs" where
  "capture_nothing =
     \<lparr>image_option = ''Capture Image'', uploaded_file = None,
      video_processor = Some init_processor, identify_clicked = True\<rparr>"

section \<open>Properties\<close>

subsection \<open>The classification client\<close>

lemma identify_plant_response:
  "post (build_request api_key image_data) = Inr response \<Longrightarrow>
   identify_plant post api_key image_data =
     \<lparr>returned = fst (process_response response),
      requests = [build_request api_key image_data],
      shown = snd (process_response response)\<rparr>"
  by (simp add: identify_plant_def Let_def split: prod.splits)

lemma answer_response:
  "identify_plant (answer response) api_key image_data =
     \<lparr>returned = fst (process_response response),
      requests = [build_request api_key image_data],
      shown = snd (process_response response)\<rparr>"
  by (rule identify_plant_response) (simp add: answer_def)

lemma process_first_label:
  assumes "status_code response = 200"
      and "json_body response = Inr (JObj kvs)"
      and "map_of kvs ''predictions'' = Some (JArr (p # ps))"
  shows "process_response response = (first_label (JArr (p # ps)), [])"
  using assms by (simp add: process_response_def bind_err_def)

lemma process_no_predictions:
  assumes "status_code response = 200"
      and "json_body response = Inr (JObj kvs)"
      and "map_of kvs ''predictions'' = None \<or> map_of kvs ''predictions'' = Some (JArr [])"
  shows "process_response response =
           (Inr JNull, [StError ''No predictions found in the response.''])"
  using assms by (auto simp add: process_response_def bind_err_def)

lemma process_label_present:
  assumes "status_code response = 200"
      and "json_body response = Inr (JObj kvs)"
      and "map_of kvs ''predictions'' = Some (JArr (JObj p # ps))"
      and "map_of p ''plant_identification'' = Some (JObj q)"
      and "map_of q ''plant_name'' = Some label"
  shows "process_response response = (Inr label, [])"
proof -
  have "first_label (JArr (JObj p # ps)) = Inr label"
    using assms(4,5) by (simp add: first_label_def bind_err_def)
  then show ?thesis
    using process_first_label [OF assms(1,2,3)] by simp
qed

text \<open>
  C1, as stated, at a response whose second prediction is the one labelled Rose: the
  label of the first prediction is returned, which is Tulip.
\<close>

theorem later_rose_entry_counterexample:
  "status_code tulip_rose_response = 200 \<and>
   json_body tulip_rose_response = Inr (JObj [(''predictions'',
     JArr [JObj [(''plant_identification'', JObj [(''plant_name'', JStr ''Tulip'')])],
           JObj [(''plant_identification'', JObj [(''plant_name'', JStr ''Rose'')])]])]) \<and>
   returned (identify_plant (answer tulip_rose_response) (Some ''key'') jpeg_bytes)
     = Inr (JStr ''Tulip'') \<and>
   returned (identify_plant (answer tulip_rose_response) (Some ''key'') jpeg_bytes)
     \<noteq> Inr (JStr ''Rose'')"
  by (simp add: answer_response process_response_def first_label_def bind_err_def
        tulip_rose_response_def)

text \<open>
  C1, amended: for a response with status 200 whose body is an object with a
  predictions list, the first entry of which is an object whose plant_identification
  is an object with a plant_name field, \<open>identify_plant\<close> returns that field and
  shows no message; it returns Rose when that field is the string Rose.
\<close>

theorem first_prediction_label:
  assumes "post (build_request api_key image_data) = Inr response"
      and "status_code response = 200"
      and "json_body response = Inr (JObj kvs)"
      and "map_of kvs ''predictions'' = Some (JArr (JObj p # ps))"
      and "map_of p ''plant_identification'' = Some (JObj q)"
      and "map_of q ''plant_name'' = Some label"
  shows "returned (identify_plant post api_key image_data) = Inr label \<and>
         shown (identify_plant post api_key image_data) = []"
  using process_label_present [OF assms(2-6)]
    identify_plant_response [of post api_key image_data response] assms(1)
  by simp

theorem first_prediction_label_witness:
  "answer rose_response (build_request (Some ''key'') jpeg_bytes) = Inr rose_response \<and>
   status_code rose_response = 200 \<and>
   json_body rose_response = Inr (JObj [(''predictions'',
     JArr [JObj [(''plant_identification'', JObj [(''plant_name'', JStr ''Rose'')])]])]) \<and>
   returned (identify_plant (answer rose_response) (Some ''key'') jpeg_bytes)
     = Inr (JStr ''Rose'') \<and>
   shown (identify_plant (answer rose_response) (Some ''key'') jpeg_bytes) = []"
  using first_prediction_label [of "answer rose_response" "Some ''key''" jpeg_bytes
      rose_response
      "[(''predictions'',
         JArr [JObj [(''plant_identification'', JObj [(''plant_name'', JStr ''Rose'')])]])]"
      "[(''plant_identification'', JObj [(''plant_name'', JStr ''Rose'')])]" "[]"
      "[(''plant_name'', JStr ''Rose'')]" "JStr ''Rose''"]
  by (simp add: answer_def rose_response_def)

text \<open>
  C2, as stated, at a response with the wrong nesting: the plant_identification of the
  first prediction is a string, and the call raises instead of returning no label.
\<close>

theorem wrong_nesting_counterexample:
  "status_code nested_string_response = 200 \<and>
   json_body nested_string_response = Inr (JObj [(''predictions'',
     JArr [JObj [(''plant_identification'', JStr ''Rose'')]])]) \<and>
   returned (identify_plant (answer nested_string_response) (Some ''key'') jpeg_bytes)
     = Inl AttributeError"
  by (simp add: answer_response process_response_def first_label_def bind_err_def
        nested_string_response_def)

text \<open>
  C2, amended: for a response with status 200 whose body is an object from which keys
  of the expected shape are missing (no predictions key, or an empty predictions list,
  or a first prediction that is an object without plant_identification, or whose
  plant_identification is an object without plant_name), \<open>identify_plant\<close>
  returns \<^verbatim>\<open>None\<close> and does not raise.
\<close>

theorem missing_keys_absent:
  assumes "post (build_request api_key image_data) = Inr response"
      and "status_code response = 200"
      and "json_body response = Inr (JObj kvs)"
      and "map_of kvs ''predictions'' = None \<or>
           map_of kvs ''predictions'' = Some (JArr []) \<or>
           (\<exists>p ps. map_of kvs ''predictions'' = Some (JArr (JObj p # ps)) \<and>
              (map_of p ''plant_identification'' = None \<or>
               (\<exists>q. map_of p ''plant_identification'' = Some (JObj q) \<and>
                    map_of q ''plant_name'' = None)))"
  shows "returned (identify_plant post api_key image_data) = Inr JNull"
proof -
  consider (none) "map_of kvs ''predictions'' = None \<or> map_of kvs ''predictions'' = Some (JArr [])"
    | (entry) p ps where "map_of kvs ''predictions'' = Some (JArr (JObj p # ps))"
        "map_of p ''plant_identification'' = None \<or>
         (\<exists>q. map_of p ''plant_identification'' = Some (JObj q) \<and> map_of q ''plant_name'' = None)"
    using assms(4) by blast
  then have "fst (process_response response) = Inr JNull"
  proof cases
    case none
    then show ?thesis
      using process_no_predictions [OF assms(2,3)] by simp
  next
    case entry
    have "first_label (JArr (JObj p # ps)) = Inr JNull"
      using entry(2) by (auto simp add: first_label_def bind_err_def)
    then show ?thesis
      using process_first_label [OF assms(2,3) entry(1)] by simp
  qed
  then show ?thesis
    using identify_plant_response [of post api_key image_data response] assms(1) by simp
qed

theorem missing_keys_absent_witness:
  "answer no_name_response (build_request (Some ''key'') jpeg_bytes) = Inr no_name_response \<and>
   status_code no_name_response = 200 \<and>
   json_body no_name_response = Inr (JObj [(''predictions'',
     JArr [JObj [(''plant_identification'', JObj [])]])]) \<and>
   returned (identify_plant (answer no_name_response) (Some ''key'') jpeg_bytes) = Inr JNull"
  using missing_keys_absent [of "answer no_name_response" "Some ''key''" jpeg_bytes
      no_name_response "[(''predictions'', JArr [JObj [(''plant_identification'', JObj [])]])]"]
  by (simp add: answer_def no_name_response_def)

text \<open>
  C3, as stated, at a response with an empty predictions list: the one message that
  \<open>identify_plant\<close> shows is an error box, not an informational message.
\<close>

theorem empty_predictions_counterexample:
  "status_code empty_predictions_response = 200 \<and>
   json_body empty_predictions_response = Inr (JObj [(''predictions'', JArr [])]) \<and>
   shown (identify_plant (answer empty_predictions_response) (Some ''key'') jpeg_bytes)
     = [StError ''No predictions found in the response.''] \<and>
   list_all is_error
     (shown (identify_plant (answer empty_predictions_response) (Some ''key'') jpeg_bytes))"
  by (simp add: answer_response process_response_def bind_err_def
        empty_predictions_response_def)

text \<open>
  C3, amended: for a response with status 200 whose body has an empty predictions
  list, \<open>identify_plant\<close> returns \<^verbatim>\<open>None\<close> and shows the message
  "No predictions found in the response." as an error box; the Identify action then
  writes the plain text "No plant was identified." into the result placeholder.
\<close>

theorem empty_predictions_error_message:
  assumes "post (build_request api_key image_data) = Inr response"
      and "status_code response = 200"
      and "json_body response = Inr (JObj kvs)"
      and "map_of kvs ''predictions'' = Some (JArr [])"
  shows "returned (identify_plant post api_key image_data) = Inr JNull \<and>
         shown (identify_plant post api_key image_data) =
           [StError ''No predictions found in the response.''] \<and>
         page (identify_action post api_key fmt image_data) =
           [StError ''No predictions found in the response.'',
            PlaceholderWrite ''No plant was identified.'']"
  using process_no_predictions [OF assms(2,3)]
    identify_plant_response [of post api_key image_data response] assms(1) assms(4)
  by (simp add: identify_action_def)

theorem empty_predictions_error_message_witness:
  "answer empty_predictions_response (build_request (Some ''key'') jpeg_bytes)
     = Inr empty_predictions_response \<and>
   status_code empty_predictions_response = 200 \<and>
   json_body empty_predictions_response = Inr (JObj [(''predictions'', JArr [])]) \<and>
   returned (identify_plant (answer empty_predictions_response) (Some ''key'') jpeg_bytes)
     = Inr JNull \<and>
   page (identify_action (answer empty_predictions_response) (Some ''key'') (\<lambda>v. []) jpeg_bytes)
     = [StError ''No predictions found in the response.'',
        PlaceholderWrite ''No plant was identified.'']"
  using empty_predictions_error_message [of "answer empty_predictions_response" "Some ''key''"
      jpeg_bytes empty_predictions_response "[(''predictions'', JArr [])]" "\<lambda>v. []"]
  by (simp add: answer_def empty_predictions_response_def)

text \<open>
  C4: for a response whose status is not 200, \<open>identify_plant\<close> returns
  \<^verbatim>\<open>None\<close> and shows one error box, whose text is "Error: ", the status code in
  decimal, " - " and the body text; so it contains the status code and the body text.
\<close>

theorem non_200_shows_error:
  assumes "post (build_request api_key image_data) = Inr response"
      and "status_code response \<noteq> 200"
  shows "returned (identify_plant post api_key image_data) = Inr JNull \<and>
         shown (identify_plant post api_key image_data) =
           [StError (''Error: '' @ str_int (status_code response) @ '' - '' @ resp_text response)] \<and>
         sublist (str_int (status_code response))
           (''Error: '' @ str_int (status_code response) @ '' - '' @ resp_text response) \<and>
         sublist (resp_text response)
           (''Error: '' @ str_int (status_code response) @ '' - '' @ resp_text response)"
proof -
  let ?msg = "''Error: '' @ str_int (status_code response) @ '' - '' @ resp_text response"
  have "process_response response = (Inr JNull, [StError ?msg])"
    using assms(2) by (simp add: process_response_def)
  then have out: "identify_plant post api_key image_data =
      \<lparr>returned = Inr JNull, requests = [build_request api_key image_data],
       shown = [StError ?msg]\<rparr>"
    using identify_plant_response [of post api_key image_data response] assms(1) by simp
  have code: "sublist (str_int (status_code response)) ?msg"
    by (rule sublist_appendI)
  have "sublist (resp_text response)
          ((''Error: '' @ str_int (status_code response) @ '' - '') @ resp_text response @ [])"
    by (rule sublist_appendI)
  then have body: "sublist (resp_text response) ?msg"
    by simp
  show ?thesis
    using code body by (simp add: out)
qed

theorem non_200_shows_error_witness:
  "answer not_found_response (build_request (Some ''key'') jpeg_bytes) = Inr not_found_response \<and>
   status_code not_found_response \<noteq> 200 \<and>
   returned (identify_plant (answer not_found_response) (Some ''key'') jpeg_bytes) = Inr JNull \<and>
   shown (identify_plant (answer not_found_response) (Some ''key'') jpeg_bytes)
     = [StError ''Error: 404 - not found''] \<and>
   sublist ''404'' ''Error: 404 - not found'' \<and>
   sublist ''not found'' ''Error: 404 - not found''"
  using non_200_shows_error [of "answer not_found_response" "Some ''key''" jpeg_bytes
      not_found_response]
  by (simp add: answer_def not_found_response_def str_int_def digit_char_def)

text \<open>
  C5: whatever the image, the key and the network's answer, \<open>identify_plant\<close>
  sends exactly one request: a POST to the fixed URL, with the one header
  \<^verbatim>\<open>Authorization: Bearer\<close> followed by the key, and the JSON body that holds the
  base64 text of the image and the empty plant_identification feature.
\<close>

theorem one_post_request:
  "requests (identify_plant post api_key image_data) =
     [\<lparr>rq_method = ''POST'',
       rq_url = ''https://gemini.googleapis.com/v1/models/gemini-1.5-flash-latest:predict'',
       rq_headers = [(''Authorization'', ''Bearer '' @ str_opt api_key)],
       rq_json = JObj [(''instances'',
         JArr [JObj [(''image'', JObj [(''content'', JStr (b64encode image_data))]),
                     (''features'', JObj [(''plant_identification'', JObj [])])]])],
       rq_verify = False\<rparr>]"
  by (simp add: identify_plant_def build_request_def request_data_def api_url_def Let_def
        split: sum.splits prod.splits)

subsection \<open>Base64\<close>

lemma index_of_nth:
  "distinct xs \<Longrightarrow> i < length xs \<Longrightarrow> index_of (xs ! i) xs = Some i"
proof (induction xs arbitrary: i)
  case Nil
  then show ?case by simp
next
  case (Cons y ys)
  show ?case
  proof (cases i)
    case 0
    then show ?thesis by simp
  next
    case (Suc j)
    with Cons.prems have "ys ! j \<in> set ys" "y \<notin> set ys" "j < length ys" "distinct ys"
      by auto
    then have "ys ! j \<noteq> y" by blast
    with Cons.IH [of j] \<open>distinct ys\<close> \<open>j < length ys\<close> Suc show ?thesis by simp
  qed
qed

lemma length_b64alphabet: "length b64alphabet = 64"
  by (simp add: b64alphabet_def)

lemma distinct_b64alphabet: "distinct b64alphabet"
  by (simp add: b64alphabet_def)

lemma pad_not_in_b64alphabet: "CHR ''='' \<notin> set b64alphabet"
  by (simp add: b64alphabet_def)

lemma b64index_b64char: "i < 64 \<Longrightarrow> b64index (b64char i) = Some i"
  by (simp add: b64index_def b64char_def index_of_nth distinct_b64alphabet length_b64alphabet)

lemma b64char_not_pad: "i < 64 \<Longrightarrow> b64char i \<noteq> CHR ''=''"
proof
  assume "i < 64" and "b64char i = CHR ''=''"
  then have "CHR ''='' \<in> set b64alphabet"
    using nth_mem [of i b64alphabet] by (simp add: b64char_def length_b64alphabet)
  then show False
    using pad_not_in_b64alphabet by simp
qed

lemma unat_byte_less: "unat (a :: byte) < 256"
  using unsigned_less [of a, where 'a = nat] by simp

lemma sextets_1: "n div 64 * 64 + n mod 64 = (n::nat)"
  by simp

lemma sextets_2: "n div 4096 * 4096 + n div 64 mod 64 * 64 + n mod 64 = (n::nat)"
proof -
  have a: "n div 4096 = n div 64 div 64" by (simp add: div_mult2_eq)
  have e: "m div 64 * 4096 = m div 64 * 64 * 64" for m :: nat by simp
  have f: "m div 64 * 64 * 64 + m mod 64 * 64 = m * 64" for m :: nat
    by (metis add_mult_distrib div_mult_mod_eq)
  show ?thesis
    unfolding a e f by simp
qed

lemma sextets_3:
  "n div 262144 * 262144 + n div 4096 mod 64 * 4096 + n div 64 mod 64 * 64 + n mod 64 = (n::nat)"
proof -
  have a: "n div 4096 = n div 64 div 64" by (simp add: div_mult2_eq)
  have b: "n div 262144 = n div 64 div 64 div 64" by (simp add: div_mult2_eq)
  have c: "m div 64 * 262144 = m div 64 * 64 * 4096" for m :: nat by simp
  have d: "m div 64 * 64 * 4096 + m mod 64 * 4096 = m * 4096" for m :: nat
    by (metis add_mult_distrib div_mult_mod_eq)
  have e: "m div 64 * 4096 = m div 64 * 64 * 64" for m :: nat by simp
  have f: "m div 64 * 64 * 64 + m mod 64 * 64 = m * 64" for m :: nat
    by (metis add_mult_distrib div_mult_mod_eq)
  show ?thesis
    unfolding a b c d e f by simp
qed

lemma bytes_3:
  fixes a b c :: nat
  assumes "b < 256" "c < 256"
  shows "(a * 65536 + b * 256 + c) div 65536 = a"
    and "(a * 65536 + b * 256 + c) div 256 mod 256 = b"
    and "(a * 65536 + b * 256 + c) mod 256 = c"
proof -
  have eq: "a * 65536 + b * 256 + c = (a * 256 + b) * 256 + c" by simp
  have low: "(m * 256 + c) div 256 = m" "(m * 256 + c) mod 256 = c" for m
    using assms(2) by simp_all
  have mid: "(a * 256 + b) div 256 = a" "(a * 256 + b) mod 256 = b"
    using assms(1) by simp_all
  have top: "n div 65536 = n div 256 div 256" for n :: nat
    by (simp add: div_mult2_eq)
  show "(a * 65536 + b * 256 + c) mod 256 = c"
    by (simp only: eq low)
  show "(a * 65536 + b * 256 + c) div 256 mod 256 = b"
    by (simp only: eq low mid)
  show "(a * 65536 + b * 256 + c) div 65536 = a"
    by (simp only: top eq low mid)
qed

lemma decode_pad2:
  assumes "i0 < 64" "i1 < 64"
  shows "b64decode [b64char i0, b64char i1, CHR ''='', CHR ''='']
         = Some [of_nat ((i0 * 64 + i1) div 16)]"
  using assms by (simp add: b64index_b64char)

lemma decode_pad1:
  assumes "i0 < 64" "i1 < 64" "i2 < 64"
  shows "b64decode [b64char i0, b64char i1, b64char i2, CHR ''='']
         = Some [of_nat ((i0 * 4096 + i1 * 64 + i2) div 4 div 256),
                 of_nat ((i0 * 4096 + i1 * 64 + i2) div 4 mod 256)]"
  using assms by (simp add: b64index_b64char b64char_not_pad Let_def)

lemma decode_quad:
  assumes "i0 < 64" "i1 < 64" "i2 < 64" "i3 < 64"
  shows "b64decode (b64char i0 # b64char i1 # b64char i2 # b64char i3 # rest)
         = map_option
             (\<lambda>bs. of_nat ((i0 * 262144 + i1 * 4096 + i2 * 64 + i3) div 65536) #
                   of_nat ((i0 * 262144 + i1 * 4096 + i2 * 64 + i3) div 256 mod 256) #
                   of_nat ((i0 * 262144 + i1 * 4096 + i2 * 64 + i3) mod 256) # bs)
             (b64decode rest)"
  using assms by (simp add: b64index_b64char b64char_not_pad Let_def)

lemma decode_group_1: "b64decode (b64encode [a]) = Some [a]"
proof -
  define n where "n = unat a * 16"
  define i0 where "i0 = n div 64"
  define i1 where "i1 = n mod 64"
  have enc: "b64encode [a] = [b64char i0, b64char i1, CHR ''='', CHR ''='']"
    by (simp only: b64encode.simps Let_def n_def i0_def i1_def)
  have "n < 4096" using unat_byte_less [of a] by (simp add: n_def)
  then have lt: "i0 < 64" "i1 < 64" by (simp_all add: i0_def i1_def)
  have "i0 * 64 + i1 = n" unfolding i0_def i1_def by (rule sextets_1)
  moreover have "n div 16 = unat a" by (simp add: n_def)
  ultimately have "of_nat ((i0 * 64 + i1) div 16) = a" by simp
  then show ?thesis
    by (simp only: enc decode_pad2 [OF lt])
qed

lemma decode_group_2: "b64decode (b64encode [a, b]) = Some [a, b]"
proof -
  define n where "n = (unat a * 256 + unat b) * 4"
  define i0 where "i0 = n div 4096"
  define i1 where "i1 = n div 64 mod 64"
  define i2 where "i2 = n mod 64"
  have enc: "b64encode [a, b] = [b64char i0, b64char i1, b64char i2, CHR ''='']"
    by (simp only: b64encode.simps Let_def n_def i0_def i1_def i2_def)
  have "n < 262144" using unat_byte_less [of a] unat_byte_less [of b] by (simp add: n_def)
  then have lt: "i0 < 64" "i1 < 64" "i2 < 64" by (simp_all add: i0_def i1_def i2_def)
  have n: "i0 * 4096 + i1 * 64 + i2 = n" unfolding i0_def i1_def i2_def by (rule sextets_2)
  have "n div 4 = unat a * 256 + unat b" by (simp add: n_def)
  then have "n div 4 div 256 = unat a" "n div 4 mod 256 = unat b"
    using unat_byte_less [of b] by simp_all
  then have "of_nat (n div 4 div 256) = a" "of_nat (n div 4 mod 256) = b" by simp_all
  then show ?thesis
    by (simp only: enc decode_pad1 [OF lt] n)
qed

lemma decode_group_3:
  "b64decode (b64encode (a # b # c # rest)) =
     map_option (\<lambda>bs. a # b # c # bs) (b64decode (b64encode rest))"
proof -
  define n where "n = unat a * 65536 + unat b * 256 + unat c"
  define i0 where "i0 = n div 262144"
  define i1 where "i1 = n div 4096 mod 64"
  define i2 where "i2 = n div 64 mod 64"
  define i3 where "i3 = n mod 64"
  have enc: "b64encode (a # b # c # rest) =
      b64char i0 # b64char i1 # b64char i2 # b64char i3 # b64encode rest"
    by (simp only: b64encode.simps Let_def n_def i0_def i1_def i2_def i3_def)
  have "n < 16777216"
    using unat_byte_less [of a] unat_byte_less [of b] unat_byte_less [of c]
    by (simp add: n_def)
  then have lt: "i0 < 64" "i1 < 64" "i2 < 64" "i3 < 64"
    by (simp_all add: i0_def i1_def i2_def i3_def)
  have n: "i0 * 262144 + i1 * 4096 + i2 * 64 + i3 = n"
    unfolding i0_def i1_def i2_def i3_def by (rule sextets_3)
  have "n div 65536 = unat a" "n div 256 mod 256 = unat b" "n mod 256 = unat c"
    unfolding n_def by (rule bytes_3 [OF unat_byte_less unat_byte_less])+
  then have "of_nat (n div 65536) = a" "of_nat (n div 256 mod 256) = b" "of_nat (n mod 256) = c"
    by simp_all
  then show ?thesis
    by (simp only: enc decode_quad [OF lt] n)
qed

text \<open>
  C8: decoding the base64 text that the client puts in its request gives back the bytes
  of the image, for every byte sequence.
\<close>

theorem b64_roundtrip: "b64decode (b64encode image_data) = Some image_data"
proof (induction image_data rule: b64encode.induct)
  case 1
  show ?case by simp
next
  case (2 a)
  show ?case by (rule decode_group_1)
next
  case (3 a b)
  show ?case by (rule decode_group_2)
next
  case (4 a b c rest)
  then show ?case
    by (simp only: decode_group_3 option.map)
qed


subsection \<open>The page\<close>

text \<open>
  C7: when the upload branch has no file, or the capture branch has no video processor
  or a processor that has received no frame, the Identify button is not drawn and the
  run sends no request, whatever the other inputs are.
\<close>

theorem no_image_no_request:
  assumes "(image_option inp = ''Upload Image'' \<and> uploaded_file inp = None) \<or>
           (image_option inp = ''Capture Image'' \<and>
              (case video_processor inp of None \<Rightarrow> True | Some vp \<Rightarrow> captured_image vp = None))"
  shows "SidebarButton ''Identify'' \<notin> set (page (run_script post api_key fmt show_image imencode inp)) \<and>
         sent (run_script post api_key fmt show_image imencode inp) = [] \<and>
         fault (run_script post api_key fmt show_image imencode inp) = None"
  using assms
  by (auto simp add: run_script_def upload_branch_def capture_branch_def no_action_def
        sidebar_head_def main_area_def Let_def split: option.splits)

theorem no_image_no_request_witness:
  "image_option upload_nothing = ''Upload Image'' \<and> uploaded_file upload_nothing = None \<and>
   sent (run_script (answer rose_response) (Some ''key'') (\<lambda>v. [])
           (shows_only png_bytes) (\<lambda>img. jpeg_bytes)
           upload_nothing) = [] \<and>
   image_option capture_nothing = ''Capture Image'' \<and>
   video_processor capture_nothing = Some \<lparr>captured_image = None\<rparr> \<and>
   sent (run_script (answer rose_response) (Some ''key'') (\<lambda>v. [])
           (shows_only png_bytes) (\<lambda>img. jpeg_bytes)
           capture_nothing) = []"
  using no_image_no_request [of upload_nothing "answer rose_response" "Some ''key''"
      "\<lambda>v. []" "shows_only png_bytes" "\<lambda>img. jpeg_bytes"]
    no_image_no_request [of capture_nothing "answer rose_response" "Some ''key''"
      "\<lambda>v. []" "shows_only png_bytes" "\<lambda>img. jpeg_bytes"]
  by (simp add: upload_nothing_def capture_nothing_def init_processor_def)

text \<open>
  C10: when the first prediction of a 200 response has the empty string as its
  plant_name, the Identify action writes "No plant was identified." and shows nothing
  else; and a click on Identify in the upload branch, on a file that the image widget
  draws, writes that text and nothing else into the result placeholder: the empty
  label is not reported as an identification.
\<close>

theorem empty_label_not_identified:
  assumes "post (build_request api_key image_data) = Inr response"
      and "status_code response = 200"
      and "json_body response = Inr (JObj kvs)"
      and "map_of kvs ''predictions'' = Some (JArr (JObj p # ps))"
      and "map_of p ''plant_identification'' = Some (JObj q)"
      and "map_of q ''plant_name'' = Some (JStr [])"
      and "image_option inp = ''Upload Image''"
      and "uploaded_file inp = Some image_data"
      and "show_image image_data = None"
      and "identify_clicked inp"
  shows "page (identify_action post api_key fmt image_data) =
           [PlaceholderWrite ''No plant was identified.''] \<and>
         written (page (run_script post api_key fmt show_image imencode inp)) =
           [''No plant was identified.''] \<and>
         fault (run_script post api_key fmt show_image imencode inp) = None"
proof -
  have "identify_plant post api_key image_data =
      \<lparr>returned = Inr (JStr []), requests = [build_request api_key image_data], shown = []\<rparr>"
    using process_label_present [OF assms(2-6)]
      identify_plant_response [of post api_key image_data response] assms(1)
    by simp
  then have act: "identify_action post api_key fmt image_data =
      \<lparr>fault = None, sent = [build_request api_key image_data],
       page = [PlaceholderWrite ''No plant was identified.'']\<rparr>"
    by (simp add: identify_action_def)
  show ?thesis
    using assms(7-10)
    by (simp add: run_script_def upload_branch_def act Let_def written_def
          sidebar_head_def main_area_def)
qed

theorem empty_label_not_identified_witness:
  "answer empty_name_response (build_request (Some ''key'') png_bytes) = Inr empty_name_response \<and>
   status_code empty_name_response = 200 \<and>
   json_body empty_name_response = Inr (JObj [(''predictions'',
     JArr [JObj [(''plant_identification'', JObj [(''plant_name'', JStr [])])]])]) \<and>
   image_option (upload_click png_bytes) = ''Upload Image'' \<and>
   uploaded_file (upload_click png_bytes) = Some png_bytes \<and>
   shows_only png_bytes png_bytes = None \<and>
   identify_clicked (upload_click png_bytes) \<and>
   page (identify_action (answer empty_name_response) (Some ''key'') (\<lambda>v. []) png_bytes) =
     [PlaceholderWrite ''No plant was identified.''] \<and>
   written (page (run_script (answer empty_name_response) (Some ''key'') (\<lambda>v. [])
      (shows_only png_bytes) (\<lambda>img. jpeg_bytes) (upload_click png_bytes))) =
     [''No plant was identified.'']"
  using empty_label_not_identified [of "answer empty_name_response" "Some ''key''" png_bytes
      empty_name_response
      "[(''predictions'',
         JArr [JObj [(''plant_identification'', JObj [(''plant_name'', JStr [])])]])]"
      "[(''plant_identification'', JObj [(''plant_name'', JStr [])])]" "[]"
      "[(''plant_name'', JStr [])]" "upload_click png_bytes" "shows_only png_bytes"
      "\<lambda>v. []" "\<lambda>img. jpeg_bytes"]
  by (simp add: answer_def empty_name_response_def upload_click_def shows_only_def)

subsection \<open>The capture holder\<close>

lemma recv_all_append:
  "recv_all cv self (fs @ gs) = recv_all cv (recv_all cv self fs) gs"
  by (induction fs arbitrary: self) simp_all

text \<open>
  C9: \<open>recv\<close> returns the frame it was given, whatever the holder contained and
  whatever it contains afterwards.
\<close>

theorem recv_returns_frame: "snd (recv to_ndarray self frame) = frame"
  by (simp add: recv_def)

text \<open>
  C6: after any sequence of arrivals that ends with the frame \<open>F2\<close>, the holder contains
  the array of \<open>F2\<close> and nothing of the frames before it; in particular after \<open>F1\<close> then
  \<open>F2\<close>.
\<close>

theorem recv_last_write_wins:
  "captured_image (recv_all to_ndarray self (frames @ [F2])) = Some (to_ndarray F2) \<and>
   captured_image (fst (recv to_ndarray (fst (recv to_ndarray self F1)) F2)) = Some (to_ndarray F2)"
  by (simp add: recv_all_append recv_def)

end
